theory Spec2Isabelle
  imports Main
begin

section \<open>Python values, exceptions and the logger\<close>

text \<open>
  The program is the single module \<^verbatim>\<open>mcp-k8s.py\<close>: seven tool handlers, each a
  \<^verbatim>\<open>try\<close> block around one call of the Kubernetes client \<^verbatim>\<open>v1\<close>, the module-level
  loading of the cluster configuration, and the command line of the server.

  A Python \<^verbatim>\<open>str\<close> is a \<open>string\<close>; text outside ASCII (the log messages) is
  carried as its UTF-8 bytes. An exception is an instance of Python's class
  \<^verbatim>\<open>Exception\<close>, which is what the client library and the interpreter raise on
  the operations of this module; it carries the name of its class and the text that
  \<^verbatim>\<open>str(e)\<close> gives. A computation that may raise returns \<open>Inl e\<close> when it raises
  \<open>e\<close> and \<open>Inr v\<close> when it returns \<open>v\<close>.
\<close>

datatype py_exception = PyException (exc_class: string) (exc_str: string)

type_synonym 'a raises = "py_exception + 'a"

text \<open>
  The attributes of the client's objects that the handlers print: \<^verbatim>\<open>None\<close>, a
  \<^verbatim>\<open>str\<close>, or another object (a timestamp, a container state), which is carried as
  the text \<^verbatim>\<open>str()\<close> gives for it. \<open>py_str\<close> is what an f-string inserts.
\<close>

datatype py_value = PyNone | PyStr string | PyObj string

fun py_str :: "py_value \<Rightarrow> string" where
  "py_str PyNone = ''None''"
| "py_str (PyStr s) = s"
| "py_str (PyObj s) = s"

datatype log_level = INFO | WARNING | ERROR

type_synonym log_record = "log_level \<times> string"

section \<open>The cluster client\<close>

text \<open>
  Manifests are Python dict literals: a dict is an association list in the order of the
  literal.
\<close>

datatype json = JStr string | JList "json list" | JDict "(string \<times> json) list"

definition jget :: "json \<Rightarrow> string \<Rightarrow> json option" where
  "jget j k = (case j of JDict kvs \<Rightarrow> map_of kvs k | _ \<Rightarrow> None)"

record V1ObjectMeta =
  meta_name :: py_value
  meta_namespace :: py_value
  creation_timestamp :: py_value

record V1ContainerStatus =
  state :: py_value

record V1PodStatus =
  phase :: py_value
  container_statuses :: "V1ContainerStatus list option"
  pod_ip :: py_value

record V1PodSpec =
  node_name :: py_value

record V1Pod =
  metadata :: V1ObjectMeta
  status :: V1PodStatus
  spec :: V1PodSpec

record V1ObjectReference =
  ref_name :: py_value

record V1EventSource =
  component :: py_value

record V1Event =
  involved_object :: V1ObjectReference
  message :: py_value
  reason :: py_value
  event_type :: py_value
  source :: V1EventSource
  first_timestamp :: py_value
  last_timestamp :: py_value

text \<open>
  The calls the module makes on the client \<^verbatim>\<open>v1\<close>, with their arguments. The cluster
  is outside the program: \<open>CoreV1Api\<close> gives, for every call, what the cluster answers
  (an exception or the returned value; of the objects returned by the create and delete
  calls the module uses nothing).
\<close>

datatype api_call =
    ListNamespacedPod string
  | ListPodForAllNamespaces
  | ReadNamespacedPodLog string string int
  | CreateNamespacedPod string json
  | CreateNamespace json
  | DeleteNamespacedPod string string
  | DeleteNamespace string
  | ListNamespacedEvent string

record CoreV1Api =
  on_list_namespaced_pod :: "string \<Rightarrow> V1Pod list raises"
  on_list_pod_for_all_namespaces :: "V1Pod list raises"
  on_read_namespaced_pod_log :: "string \<Rightarrow> string \<Rightarrow> int \<Rightarrow> string raises"
  on_create_namespaced_pod :: "string \<Rightarrow> json \<Rightarrow> unit raises"
  on_create_namespace :: "json \<Rightarrow> unit raises"
  on_delete_namespaced_pod :: "string \<Rightarrow> string \<Rightarrow> unit raises"
  on_delete_namespace :: "string \<Rightarrow> unit raises"
  on_list_namespaced_event :: "string \<Rightarrow> V1Event list raises"

text \<open>
  What the program does to the outside: the records it gives to the logger, the
  configuration loaders it runs and the calls it makes on the client, each in order.
\<close>

datatype config_call = LoadKubeConfig string | LoadInclusterConfig

record world =
  logged :: "log_record list"
  config_calls :: "config_call list"
  api_calls :: "api_call list"

definition logger_info :: "string \<Rightarrow> world \<Rightarrow> world" where
  "logger_info msg w = w\<lparr>logged := logged w @ [(INFO, msg)]\<rparr>"

definition logger_warning :: "string \<Rightarrow> world \<Rightarrow> world" where
  "logger_warning msg w = w\<lparr>logged := logged w @ [(WARNING, msg)]\<rparr>"

definition logger_error :: "string \<Rightarrow> world \<Rightarrow> world" where
  "logger_error msg w = w\<lparr>logged := logged w @ [(ERROR, msg)]\<rparr>"

definition called :: "api_call \<Rightarrow> world \<Rightarrow> world" where
  "called c w = w\<lparr>api_calls := api_calls w @ [c]\<rparr>"

definition list_namespaced_pod :: "CoreV1Api \<Rightarrow> string \<Rightarrow> world \<Rightarrow> V1Pod list raises \<times> world" where
  "list_namespaced_pod v1 namespace w =
     (on_list_namespaced_pod v1 namespace, called (ListNamespacedPod namespace) w)"

definition list_pod_for_all_namespaces :: "CoreV1Api \<Rightarrow> world \<Rightarrow> V1Pod list raises \<times> world" where
  "list_pod_for_all_namespaces v1 w =
     (on_list_pod_for_all_namespaces v1, called ListPodForAllNamespaces w)"

definition read_namespaced_pod_log ::
  "CoreV1Api \<Rightarrow> string \<Rightarrow> string \<Rightarrow> int \<Rightarrow> world \<Rightarrow> string raises \<times> world" where
  "read_namespaced_pod_log v1 name namespace tail_lines w =
     (on_read_namespaced_pod_log v1 name namespace tail_lines,
      called (ReadNamespacedPodLog name namespace tail_lines) w)"

definition create_namespaced_pod ::
  "CoreV1Api \<Rightarrow> string \<Rightarrow> json \<Rightarrow> world \<Rightarrow> unit raises \<times> world" where
  "create_namespaced_pod v1 namespace body w =
     (on_create_namespaced_pod v1 namespace body, called (CreateNamespacedPod namespace body) w)"

definition create_namespace_call :: "CoreV1Api \<Rightarrow> json \<Rightarrow> world \<Rightarrow> unit raises \<times> world" where
  "create_namespace_call v1 body w = (on_create_namespace v1 body, called (CreateNamespace body) w)"

definition delete_namespaced_pod ::
  "CoreV1Api \<Rightarrow> string \<Rightarrow> string \<Rightarrow> world \<Rightarrow> unit raises \<times> world" where
  "delete_namespaced_pod v1 name namespace w =
     (on_delete_namespaced_pod v1 name namespace, called (DeleteNamespacedPod name namespace) w)"

definition delete_namespace_call :: "CoreV1Api \<Rightarrow> string \<Rightarrow> world \<Rightarrow> unit raises \<times> world" where
  "delete_namespace_call v1 name w = (on_delete_namespace v1 name, called (DeleteNamespace name) w)"

definition list_namespaced_event ::
  "CoreV1Api \<Rightarrow> string \<Rightarrow> world \<Rightarrow> V1Event list raises \<times> world" where
  "list_namespaced_event v1 namespace w =
     (on_list_namespaced_event v1 namespace, called (ListNamespacedEvent namespace) w)"

section \<open>The handlers\<close>

text \<open>
  Every handler is \<^verbatim>\<open>try: body except Exception as e: logger.error(...); return f"..."\<close>.
  \<open>try_except\<close> runs the handler clause on the exception the body raised, in the world
  the body left. The handlers are \<^verbatim>\<open>async def\<close> without any \<^verbatim>\<open>await\<close>: awaited, they
  run from start to end, so each is a function of its arguments and the world.

  A parameter with a default value is an \<open>option\<close>: \<open>None\<close> when the caller omits the
  argument, and \<open>arg_or\<close> binds the default of the signature.
\<close>

definition try_except ::
  "'a raises \<times> world \<Rightarrow> (py_exception \<Rightarrow> world \<Rightarrow> 'a raises \<times> world) \<Rightarrow> 'a raises \<times> world" where
  "try_except body handler =
     (case body of (Inl e, w) \<Rightarrow> handler e w | (Inr v, w) \<Rightarrow> (Inr v, w))"

definition arg_or :: "'a option \<Rightarrow> 'a \<Rightarrow> 'a" where
  "arg_or arg dflt = (case arg of None \<Rightarrow> dflt | Some v \<Rightarrow> v)"

text \<open>\<^verbatim>\<open>sep.join(xs)\<close>\<close>

fun str_join :: "string \<Rightarrow> string list \<Rightarrow> string" where
  "str_join sep [] = []"
| "str_join sep [x] = x"
| "str_join sep (x # y # ys) = x @ sep @ str_join sep (y # ys)"

subsection \<open>\<^verbatim>\<open>get_pod_logs\<close>\<close>

definition msg_get_pod_logs :: string where
  "msg_get_pod_logs = [CHR 0xE8, CHR 0x8E, CHR 0xB7, CHR 0xE5, CHR 0x8F, CHR 0x96] @ '' Pod '' @
     [CHR 0xE6, CHR 0x97, CHR 0xA5, CHR 0xE5, CHR 0xBF, CHR 0x97, CHR 0xE6, CHR 0x97, CHR 0xB6,
      CHR 0xE5, CHR 0x87, CHR 0xBA, CHR 0xE9, CHR 0x94, CHR 0x99] @ '': ''"

definition get_pod_logs ::
  "CoreV1Api \<Rightarrow> string \<Rightarrow> string option \<Rightarrow> int option \<Rightarrow> world \<Rightarrow> string raises \<times> world" where
  "get_pod_logs v1 pod_name namespace_arg tail_lines_arg w =
     (let namespace = arg_or namespace_arg ''default'';
          tail_lines = arg_or tail_lines_arg 50
      in try_except
           (case read_namespaced_pod_log v1 pod_name namespace tail_lines w of
              (Inl e, w1) \<Rightarrow> (Inl e, w1)
            | (Inr logs, w1) \<Rightarrow> (Inr logs, w1))
           (\<lambda>e w1. (Inr (''Error retrieving pod logs: '' @ exc_str e),
                     logger_error (msg_get_pod_logs @ exc_str e) w1)))"

subsection \<open>\<^verbatim>\<open>get_pods\<close>\<close>

text \<open>
  The f-string of the loop body reads \<^verbatim>\<open>pod.status.container_statuses[0]\<close>: on
  \<^verbatim>\<open>None\<close> (a pod whose containers have no status yet) the subscript raises
  \<^verbatim>\<open>TypeError\<close>, on an empty list \<^verbatim>\<open>IndexError\<close>, inside the \<^verbatim>\<open>try\<close>.
\<close>

definition pod_details :: "V1Pod \<Rightarrow> string raises" where
  "pod_details pod =
     (case container_statuses (status pod) of
        None \<Rightarrow>
          Inl (PyException ''TypeError''
                 ([CHR 0x27] @ ''NoneType'' @ [CHR 0x27] @ '' object is not subscriptable''))
      | Some [] \<Rightarrow> Inl (PyException ''IndexError'' ''list index out of range'')
      | Some (cs # _) \<Rightarrow>
          Inr (''\<newline>Pod: '' @ py_str (meta_name (metadata pod)) @
               ''\<newline>Namespace: '' @ py_str (meta_namespace (metadata pod)) @
               ''\<newline>Status: '' @ py_str (phase (status pod)) @
               ''\<newline>Container Status: '' @ py_str (state cs) @
               ''\<newline>IP: '' @ py_str (pod_ip (status pod)) @
               ''\<newline>Node: '' @ py_str (node_name (spec pod)) @
               ''\<newline>Created: '' @ py_str (creation_timestamp (metadata pod)) @
               ''\<newline>''))"

text \<open>\<^verbatim>\<open>for pod in pods.items: ... pod_info.append(pod_details)\<close>\<close>

fun pod_info_loop :: "V1Pod list \<Rightarrow> string list \<Rightarrow> string list raises" where
  "pod_info_loop [] pod_info = Inr pod_info"
| "pod_info_loop (pod # pods) pod_info =
     (case pod_details pod of
        Inl e \<Rightarrow> Inl e
      | Inr details \<Rightarrow> pod_info_loop pods (pod_info @ [details]))"

definition msg_get_pods :: string where
  "msg_get_pods =
     [CHR 0xE8, CHR 0x8E, CHR 0xB7, CHR 0xE5, CHR 0x8F, CHR 0x96] @
     '' Pod '' @
     [CHR 0xE4, CHR 0xBF, CHR 0xA1, CHR 0xE6, CHR 0x81, CHR 0xAF, CHR 0xE6, CHR 0x97, CHR 0xB6,
      CHR 0xE5, CHR 0x87, CHR 0xBA, CHR 0xE9, CHR 0x94, CHR 0x99] @
     '': ''"

definition get_pods :: "CoreV1Api \<Rightarrow> string option \<Rightarrow> world \<Rightarrow> string raises \<times> world" where
  "get_pods v1 namespace w =
     try_except
       (case (case namespace of
                None \<Rightarrow> list_pod_for_all_namespaces v1 w
              | Some ns \<Rightarrow>
                  if ns \<noteq> [] then list_namespaced_pod v1 ns w
                  else list_pod_for_all_namespaces v1 w) of
          (Inl e, w1) \<Rightarrow> (Inl e, w1)
        | (Inr items, w1) \<Rightarrow>
            if items = [] then (Inr ''No pods found.'', w1)
            else (case pod_info_loop items [] of
                    Inl e \<Rightarrow> (Inl e, w1)
                  | Inr pod_info \<Rightarrow> (Inr (str_join ''\<newline>---\<newline>'' pod_info), w1)))
       (\<lambda>e w1. (Inr (''Error retrieving pods: '' @ exc_str e),
                 logger_error (msg_get_pods @ exc_str e) w1))"

subsection \<open>\<^verbatim>\<open>create_pod\<close>, \<^verbatim>\<open>create_namespace\<close>, \<^verbatim>\<open>delete_pod\<close>, \<^verbatim>\<open>delete_namespace\<close>\<close>

definition pod_manifest :: "string \<Rightarrow> string \<Rightarrow> string \<Rightarrow> json" where
  "pod_manifest pod_name namespace container_image =
     JDict [(''apiVersion'', JStr ''v1''),
            (''kind'', JStr ''Pod''),
            (''metadata'', JDict [(''name'', JStr pod_name), (''namespace'', JStr namespace)]),
            (''spec'', JDict
               [(''containers'', JList [JDict [(''name'', JStr pod_name), (''image'', JStr container_image)]])])]"

definition msg_create_pod :: string where
  "msg_create_pod =
     [CHR 0xE5, CHR 0x88, CHR 0x9B, CHR 0xE5, CHR 0xBB, CHR 0xBA] @
     '' Pod '' @
     [CHR 0xE6, CHR 0x97, CHR 0xB6, CHR 0xE5, CHR 0x87, CHR 0xBA, CHR 0xE9, CHR 0x94, CHR 0x99] @
     '': ''"

definition create_pod ::
  "CoreV1Api \<Rightarrow> string \<Rightarrow> string option \<Rightarrow> string option \<Rightarrow> world \<Rightarrow> string raises \<times> world" where
  "create_pod v1 pod_name namespace_arg image_arg w =
     (let namespace = arg_or namespace_arg ''default'';
          container_image = arg_or image_arg ''nginx''
      in try_except
           (case create_namespaced_pod v1 namespace (pod_manifest pod_name namespace container_image) w of
              (Inl e, w1) \<Rightarrow> (Inl e, w1)
            | (Inr _, w1) \<Rightarrow>
                (Inr (''Pod '' @ pod_name @ '' created in namespace '' @ namespace @ ''.''), w1))
           (\<lambda>e w1. (Inr (''Error creating pod: '' @ exc_str e),
                     logger_error (msg_create_pod @ exc_str e) w1)))"

definition namespace_manifest :: "string \<Rightarrow> json" where
  "namespace_manifest namespace =
     JDict [(''apiVersion'', JStr ''v1''),
            (''kind'', JStr ''Namespace''),
            (''metadata'', JDict [(''name'', JStr namespace)])]"

definition msg_create_namespace :: string where
  "msg_create_namespace =
     [CHR 0xE5, CHR 0x88, CHR 0x9B, CHR 0xE5, CHR 0xBB, CHR 0xBA, CHR 0xE5, CHR 0x91, CHR 0xBD,
      CHR 0xE5, CHR 0x90, CHR 0x8D, CHR 0xE7, CHR 0xA9, CHR 0xBA, CHR 0xE9, CHR 0x97, CHR 0xB4,
      CHR 0xE6, CHR 0x97, CHR 0xB6, CHR 0xE5, CHR 0x87, CHR 0xBA, CHR 0xE9, CHR 0x94, CHR 0x99] @
     '': ''"

definition create_namespace :: "CoreV1Api \<Rightarrow> string \<Rightarrow> world \<Rightarrow> string raises \<times> world" where
  "create_namespace v1 namespace w =
     try_except
       (case create_namespace_call v1 (namespace_manifest namespace) w of
          (Inl e, w1) \<Rightarrow> (Inl e, w1)
        | (Inr _, w1) \<Rightarrow> (Inr (''Namespace '' @ namespace @ '' created.''), w1))
       (\<lambda>e w1. (Inr (''Error creating namespace: '' @ exc_str e),
                 logger_error (msg_create_namespace @ exc_str e) w1))"

definition msg_delete_pod :: string where
  "msg_delete_pod =
     [CHR 0xE5, CHR 0x88, CHR 0xA0, CHR 0xE9, CHR 0x99, CHR 0xA4] @
     '' Pod '' @
     [CHR 0xE6, CHR 0x97, CHR 0xB6, CHR 0xE5, CHR 0x87, CHR 0xBA, CHR 0xE9, CHR 0x94, CHR 0x99] @
     '': ''"

definition delete_pod ::
  "CoreV1Api \<Rightarrow> string \<Rightarrow> string option \<Rightarrow> world \<Rightarrow> string raises \<times> world" where
  "delete_pod v1 pod_name namespace_arg w =
     (let namespace = arg_or namespace_arg ''default''
      in try_except
           (case delete_namespaced_pod v1 pod_name namespace w of
              (Inl e, w1) \<Rightarrow> (Inl e, w1)
            | (Inr _, w1) \<Rightarrow>
                (Inr (''Pod '' @ pod_name @ '' deleted from namespace '' @ namespace @ ''.''), w1))
           (\<lambda>e w1. (Inr (''Error deleting pod: '' @ exc_str e),
                     logger_error (msg_delete_pod @ exc_str e) w1)))"

definition msg_delete_namespace :: string where
  "msg_delete_namespace =
     [CHR 0xE5, CHR 0x88, CHR 0xA0, CHR 0xE9, CHR 0x99, CHR 0xA4, CHR 0xE5, CHR 0x91, CHR 0xBD,
      CHR 0xE5, CHR 0x90, CHR 0x8D, CHR 0xE7, CHR 0xA9, CHR 0xBA, CHR 0xE9, CHR 0x97, CHR 0xB4,
      CHR 0xE6, CHR 0x97, CHR 0xB6, CHR 0xE5, CHR 0x87, CHR 0xBA, CHR 0xE9, CHR 0x94, CHR 0x99] @
     '': ''"

definition delete_namespace :: "CoreV1Api \<Rightarrow> string \<Rightarrow> world \<Rightarrow> string raises \<times> world" where
  "delete_namespace v1 namespace w =
     try_except
       (case delete_namespace_call v1 namespace w of
          (Inl e, w1) \<Rightarrow> (Inl e, w1)
        | (Inr _, w1) \<Rightarrow> (Inr (''Namespace '' @ namespace @ '' deleted.''), w1))
       (\<lambda>e w1. (Inr (''Error deleting namespace: '' @ exc_str e),
                 logger_error (msg_delete_namespace @ exc_str e) w1))"

subsection \<open>\<^verbatim>\<open>get_pod_events\<close>\<close>

definition event_details :: "V1Event \<Rightarrow> string" where
  "event_details event =
     ''\<newline>\<newline>\<newline>Event: '' @ py_str (message event) @
     ''\<newline>Reason: '' @ py_str (reason event) @
     ''\<newline>Type: '' @ py_str (event_type event) @
     ''\<newline>Source: '' @ py_str (component (source event)) @
     ''\<newline>First Seen: '' @ py_str (first_timestamp event) @
     ''\<newline>Last Seen: '' @ py_str (last_timestamp event) @
     ''\<newline>''"

text \<open>\<^verbatim>\<open>for event in pod_events: ... event_info.append(event_details)\<close>\<close>

fun event_info_loop :: "V1Event list \<Rightarrow> string list \<Rightarrow> string list" where
  "event_info_loop [] event_info = event_info"
| "event_info_loop (event # events) event_info =
     event_info_loop events (event_info @ [event_details event])"

definition msg_get_pod_events :: string where
  "msg_get_pod_events =
     [CHR 0xE8, CHR 0x8E, CHR 0xB7, CHR 0xE5, CHR 0x8F, CHR 0x96] @
     '' Pod '' @
     [CHR 0xE4, CHR 0xBA, CHR 0x8B, CHR 0xE4, CHR 0xBB, CHR 0xB6, CHR 0xE6, CHR 0x97, CHR 0xB6,
      CHR 0xE5, CHR 0x87, CHR 0xBA, CHR 0xE9, CHR 0x94, CHR 0x99] @
     '': ''"

definition get_pod_events ::
  "CoreV1Api \<Rightarrow> string \<Rightarrow> string option \<Rightarrow> world \<Rightarrow> string raises \<times> world" where
  "get_pod_events v1 pod_name namespace_arg w =
     (let namespace = arg_or namespace_arg ''default''
      in try_except
           (case list_namespaced_event v1 namespace w of
              (Inl e, w1) \<Rightarrow> (Inl e, w1)
            | (Inr items, w1) \<Rightarrow>
                (let pod_events =
                       filter (\<lambda>event. ref_name (involved_object event) = PyStr pod_name) items
                 in if pod_events = [] then (Inr ''No events found for this pod.'', w1)
                    else (Inr (str_join ''\<newline>---\<newline>'' (event_info_loop pod_events [])), w1)))
           (\<lambda>e w1. (Inr (''Error retrieving pod events: '' @ exc_str e),
                     logger_error (msg_get_pod_events @ exc_str e) w1)))"

section \<open>Loading the cluster configuration\<close>

text \<open>
  The module-level code before the handlers: \<^verbatim>\<open>config.load_kube_config\<close> with the
  context \<^verbatim>\<open>kind-mcp-server\<close>, in its \<^verbatim>\<open>except\<close> clause
  \<^verbatim>\<open>config.load_incluster_config\<close>, and after both \<^verbatim>\<open>v1 = client.CoreV1Api()\<close>.
  \<open>kube_env\<close> is the machine the module is loaded on: what each loader does there, and
  the client object the constructor returns.
\<close>

record kube_env =
  on_load_kube_config :: "string \<Rightarrow> unit raises"
  on_load_incluster_config :: "unit raises"
  client_CoreV1Api :: CoreV1Api

definition load_kube_config :: "kube_env \<Rightarrow> string \<Rightarrow> world \<Rightarrow> unit raises \<times> world" where
  "load_kube_config env context w =
     (on_load_kube_config env context,
      w\<lparr>config_calls := config_calls w @ [LoadKubeConfig context]\<rparr>)"

definition load_incluster_config :: "kube_env \<Rightarrow> world \<Rightarrow> unit raises \<times> world" where
  "load_incluster_config env w =
     (on_load_incluster_config env, w\<lparr>config_calls := config_calls w @ [LoadInclusterConfig]\<rparr>)"

definition msg_kube_config_loaded :: string where
  "msg_kube_config_loaded =
     [CHR 0xE2, CHR 0x9C, CHR 0x85] @
     '' '' @
     [CHR 0xE6, CHR 0x88, CHR 0x90, CHR 0xE5, CHR 0x8A, CHR 0x9F, CHR 0xE4, CHR 0xBB, CHR 0x8E,
      CHR 0xE9, CHR 0xBB, CHR 0x98, CHR 0xE8, CHR 0xAE, CHR 0xA4, CHR 0xE4, CHR 0xBD, CHR 0x8D,
      CHR 0xE7, CHR 0xBD, CHR 0xAE, CHR 0xE5, CHR 0x8A, CHR 0xA0, CHR 0xE8, CHR 0xBD, CHR 0xBD] @
     ''Kubernetes'' @
     [CHR 0xE9, CHR 0x85, CHR 0x8D, CHR 0xE7, CHR 0xBD, CHR 0xAE]"

definition msg_kube_config_failed :: string where
  "msg_kube_config_failed =
     [CHR 0xE2, CHR 0x9A, CHR 0xA0, CHR 0xEF, CHR 0xB8, CHR 0x8F] @
     '' '' @
     [CHR 0xE6, CHR 0x97, CHR 0xA0, CHR 0xE6, CHR 0xB3, CHR 0x95, CHR 0xE4, CHR 0xBB, CHR 0x8E,
      CHR 0xE9, CHR 0xBB, CHR 0x98, CHR 0xE8, CHR 0xAE, CHR 0xA4, CHR 0xE4, CHR 0xBD, CHR 0x8D,
      CHR 0xE7, CHR 0xBD, CHR 0xAE, CHR 0xE5, CHR 0x8A, CHR 0xA0, CHR 0xE8, CHR 0xBD, CHR 0xBD] @
     ''Kubernetes'' @
     [CHR 0xE9, CHR 0x85, CHR 0x8D, CHR 0xE7, CHR 0xBD, CHR 0xAE] @
     '': ''"

definition msg_incluster_config_loaded :: string where
  "msg_incluster_config_loaded =
     [CHR 0xE2, CHR 0x9C, CHR 0x85] @
     '' '' @
     [CHR 0xE6, CHR 0x88, CHR 0x90, CHR 0xE5, CHR 0x8A, CHR 0x9F, CHR 0xE4, CHR 0xBB, CHR 0x8E,
      CHR 0xE9, CHR 0x9B, CHR 0x86, CHR 0xE7, CHR 0xBE, CHR 0xA4, CHR 0xE5, CHR 0x86, CHR 0x85,
      CHR 0xE9, CHR 0x83, CHR 0xA8, CHR 0xE5, CHR 0x8A, CHR 0xA0, CHR 0xE8, CHR 0xBD, CHR 0xBD] @
     ''Kubernetes'' @
     [CHR 0xE9, CHR 0x85, CHR 0x8D, CHR 0xE7, CHR 0xBD, CHR 0xAE]"

definition msg_config_failed :: string where
  "msg_config_failed =
     [CHR 0xE2, CHR 0x9D, CHR 0x8C] @
     '' '' @
     [CHR 0xE6, CHR 0x97, CHR 0xA0, CHR 0xE6, CHR 0xB3, CHR 0x95, CHR 0xE5, CHR 0x8A, CHR 0xA0,
      CHR 0xE8, CHR 0xBD, CHR 0xBD] @
     ''Kubernetes'' @
     [CHR 0xE9, CHR 0x85, CHR 0x8D, CHR 0xE7, CHR 0xBD, CHR 0xAE] @
     '': ''"

definition module_init :: "kube_env \<Rightarrow> world \<Rightarrow> CoreV1Api raises \<times> world" where
  "module_init env w =
     (let w3 =
            (case load_kube_config env ''kind-mcp-server'' w of
               (Inr _, w1) \<Rightarrow> logger_info msg_kube_config_loaded w1
             | (Inl e, w1) \<Rightarrow>
                 (case load_incluster_config env (logger_warning (msg_kube_config_failed @ exc_str e) w1) of
                    (Inr _, w2) \<Rightarrow> logger_info msg_incluster_config_loaded w2
                  | (Inl e2, w2) \<Rightarrow> logger_error (msg_config_failed @ exc_str e2) w2))
      in (Inr (client_CoreV1Api env), w3))"

section \<open>The command line\<close>

text \<open>
  \<^verbatim>\<open>parser.add_argument('--host', default='0.0.0.0', ...)\<close> and
  \<^verbatim>\<open>parser.add_argument('--port', type=int, default=8081, ...)\<close>. An argument is its
  option string, the conversion \<^verbatim>\<open>type\<close> applies to the text of its value (the
  identity when none is given), and its default. Python's \<^verbatim>\<open>int\<close> on a \<^verbatim>\<open>str\<close> is
  a parameter, \<open>py_int\<close>: \<open>None\<close> where it raises \<^verbatim>\<open>ValueError\<close>.
\<close>

datatype arg_value = StrArg string | IntArg int







text \<open>
  \<^verbatim>\<open>create_starlette_app(mcp_server, debug=True)\<close> and
  \<^verbatim>\<open>uvicorn.run(starlette_app, host=args.host, port=args.port)\<close>: the program ends in
  the call of the server, with these arguments.
\<close>

record starlette_app =
  debug :: bool
  routes :: "string list"


record uvicorn_run =
  app :: starlette_app
  host :: arg_value
  port :: arg_value



section \<open>The tools as one table\<close>

text \<open>
  The seven functions under \<^verbatim>\<open>@mcp.tool()\<close>. A \<open>tool_call\<close> is a tool with its
  arguments, and \<open>call_tool\<close> runs the handler of that name on them.
\<close>

datatype tool_call =
    Tool_get_pods "string option"
  | Tool_get_pod_logs string "string option" "int option"
  | Tool_create_pod string "string option" "string option"
  | Tool_create_namespace string
  | Tool_delete_pod string "string option"
  | Tool_delete_namespace string
  | Tool_get_pod_events string "string option"

fun call_tool :: "CoreV1Api \<Rightarrow> tool_call \<Rightarrow> world \<Rightarrow> string raises \<times> world" where
  "call_tool v1 (Tool_get_pods namespace) w = get_pods v1 namespace w"
| "call_tool v1 (Tool_get_pod_logs pod_name namespace tail_lines) w =
     get_pod_logs v1 pod_name namespace tail_lines w"
| "call_tool v1 (Tool_create_pod pod_name namespace container_image) w =
     create_pod v1 pod_name namespace container_image w"
| "call_tool v1 (Tool_create_namespace namespace) w = create_namespace v1 namespace w"
| "call_tool v1 (Tool_delete_pod pod_name namespace) w = delete_pod v1 pod_name namespace w"
| "call_tool v1 (Tool_delete_namespace namespace) w = delete_namespace v1 namespace w"
| "call_tool v1 (Tool_get_pod_events pod_name namespace) w = get_pod_events v1 pod_name namespace w"

text \<open>
  The prefix of the failure text that the documentation of the tools gives for each
  (``Error retrieving pods: description'' and so on).
\<close>

fun documented_error_prefix :: "tool_call \<Rightarrow> string" where
  "documented_error_prefix (Tool_get_pods _) = ''Error retrieving pods:''"
| "documented_error_prefix (Tool_get_pod_logs _ _ _) = ''Error retrieving pod logs:''"
| "documented_error_prefix (Tool_create_pod _ _ _) = ''Error creating pod:''"
| "documented_error_prefix (Tool_create_namespace _) = ''Error creating namespace:''"
| "documented_error_prefix (Tool_delete_pod _ _) = ''Error deleting pod:''"
| "documented_error_prefix (Tool_delete_namespace _) = ''Error deleting namespace:''"
| "documented_error_prefix (Tool_get_pod_events _ _) = ''Error retrieving pod events:''"

text \<open>Whether the cluster answers a call with an exception, and with which.\<close>

definition raised :: "'a raises \<Rightarrow> py_exception option" where
  "raised r = (case r of Inl e \<Rightarrow> Some e | Inr _ \<Rightarrow> None)"

fun raised_by :: "CoreV1Api \<Rightarrow> api_call \<Rightarrow> py_exception option" where
  "raised_by v1 (ListNamespacedPod namespace) = raised (on_list_namespaced_pod v1 namespace)"
| "raised_by v1 ListPodForAllNamespaces = raised (on_list_pod_for_all_namespaces v1)"
| "raised_by v1 (ReadNamespacedPodLog name namespace tail_lines) =
     raised (on_read_namespaced_pod_log v1 name namespace tail_lines)"
| "raised_by v1 (CreateNamespacedPod namespace body) =
     raised (on_create_namespaced_pod v1 namespace body)"
| "raised_by v1 (CreateNamespace body) = raised (on_create_namespace v1 body)"
| "raised_by v1 (DeleteNamespacedPod name namespace) =
     raised (on_delete_namespaced_pod v1 name namespace)"
| "raised_by v1 (DeleteNamespace name) = raised (on_delete_namespace v1 name)"
| "raised_by v1 (ListNamespacedEvent namespace) = raised (on_list_namespaced_event v1 namespace)"

section \<open>Clusters, machines and command lines to run the program on\<close>

definition world0 :: world where
  "world0 = \<lparr>logged = [], config_calls = [], api_calls = []\<rparr>"

definition refused :: py_exception where
  "refused = PyException ''MaxRetryError'' ''Connection refused''"

text \<open>A cluster that cannot be reached: every call raises.\<close>

definition cluster_down :: CoreV1Api where
  "cluster_down =
     \<lparr>on_list_namespaced_pod = (\<lambda>_. Inl refused),
      on_list_pod_for_all_namespaces = Inl refused,
      on_read_namespaced_pod_log = (\<lambda>_ _ _. Inl refused),
      on_create_namespaced_pod = (\<lambda>_ _. Inl refused),
      on_create_namespace = (\<lambda>_. Inl refused),
      on_delete_namespaced_pod = (\<lambda>_ _. Inl refused),
      on_delete_namespace = (\<lambda>_. Inl refused),
      on_list_namespaced_event = (\<lambda>_. Inl refused)\<rparr>"

definition event_about :: "string \<Rightarrow> string \<Rightarrow> V1Event" where
  "event_about subject text =
     \<lparr>involved_object = \<lparr>ref_name = PyStr subject\<rparr>,
      message = PyStr text,
      reason = PyStr ''Scheduled'',
      event_type = PyStr ''Normal'',
      source = \<lparr>component = PyStr ''default-scheduler''\<rparr>,
      first_timestamp = PyObj ''2025-01-01 00:00:00+00:00'',
      last_timestamp = PyNone\<rparr>"

text \<open>
  A cluster that answers: no pod anywhere, a log of one line, three events in every
  namespace (two of them about the pod \<^verbatim>\<open>demo\<close>), and every create and delete done.
\<close>

definition cluster_up :: CoreV1Api where
  "cluster_up =
     \<lparr>on_list_namespaced_pod = (\<lambda>_. Inr []),
      on_list_pod_for_all_namespaces = Inr [],
      on_read_namespaced_pod_log = (\<lambda>_ _ _. Inr ''ready\<newline>''),
      on_create_namespaced_pod = (\<lambda>_ _. Inr ()),
      on_create_namespace = (\<lambda>_. Inr ()),
      on_delete_namespaced_pod = (\<lambda>_ _. Inr ()),
      on_delete_namespace = (\<lambda>_. Inr ()),
      on_list_namespaced_event =
        (\<lambda>_. Inr [event_about ''demo'' ''a'', event_about ''other'' ''b'', event_about ''demo'' ''c''])\<rparr>"

text \<open>A machine with neither a kube-config nor a service account, and one with a kube-config.\<close>

definition env_bare :: kube_env where
  "env_bare =
     \<lparr>on_load_kube_config = (\<lambda>_. Inl (PyException ''ConfigException'' ''Invalid kube-config file.'')),
      on_load_incluster_config =
        Inl (PyException ''ConfigException'' ''Service host/port is not set.''),
      client_CoreV1Api = cluster_down\<rparr>"

definition env_kind :: kube_env where
  "env_kind =
     \<lparr>on_load_kube_config = (\<lambda>_. Inr ()),
      on_load_incluster_config =
        Inl (PyException ''ConfigException'' ''Service host/port is not set.''),
      client_CoreV1Api = cluster_up\<rparr>"


section \<open>Properties of the handlers\<close>

lemma api_calls_logger_error: "api_calls (logger_error m w) = api_calls w"
  by (simp add: logger_error_def)

lemma api_calls_called: "api_calls (called c w) = api_calls w @ [c]"
  by (simp add: called_def)

lemma logged_called: "logged (called c w) = logged w"
  by (simp add: called_def)

lemma logged_logger_error: "logged (logger_error m w) = logged w @ [(ERROR, m)]"
  by (simp add: logger_error_def)

lemma event_info_loop_append: "event_info_loop events acc = acc @ map event_details events"
  by (induction events arbitrary: acc) simp_all

lemmas client_calls =
  list_namespaced_pod_def list_pod_for_all_namespaces_def read_namespaced_pod_log_def
  create_namespaced_pod_def create_namespace_call_def delete_namespaced_pod_def
  delete_namespace_call_def list_namespaced_event_def

lemmas handlers =
  get_pods_def get_pod_logs_def create_pod_def create_namespace_def delete_pod_def
  delete_namespace_def get_pod_events_def

lemma call_tool_returns: "\<exists>s. fst (call_tool v1 t w) = Inr s"
  by (cases t)
    (auto simp: handlers try_except_def client_calls Let_def
          split: option.splits sum.splits prod.splits)

lemma call_tool_one_call: "\<exists>c. api_calls (snd (call_tool v1 t w)) = api_calls w @ [c]"
  by (cases t)
    (auto simp: handlers try_except_def client_calls Let_def api_calls_logger_error
            api_calls_called
          split: option.splits sum.splits prod.splits)

lemma call_tool_raised:
  "api_calls (snd (call_tool v1 t w)) = api_calls w @ [c] \<Longrightarrow> raised_by v1 c = Some e \<Longrightarrow>
   fst (call_tool v1 t w) = Inr (documented_error_prefix t @ '' '' @ exc_str e)"
  by (cases t)
    (auto simp: handlers try_except_def client_calls Let_def api_calls_logger_error
            api_calls_called raised_def
          split: option.splits sum.splits prod.splits if_splits)

lemma call_tool_logs:
  "api_calls (snd (call_tool v1 t w)) = api_calls w @ [c] \<Longrightarrow> raised_by v1 c = Some e \<Longrightarrow>
   \<exists>m. logged (snd (call_tool v1 t w)) = logged w @ [(ERROR, m @ exc_str e)]"
  by (cases t)
    (auto simp: handlers try_except_def client_calls Let_def api_calls_logger_error
            api_calls_called raised_def logged_called logged_logger_error
          split: option.splits sum.splits prod.splits if_splits)

text \<open>
  Claim C1. Every handler (the seven of the table) returns a string whatever the cluster
  answers and never raises; it makes exactly one call on the client; and when that call
  raises an exception, the string returned is the documented error prefix of the handler,
  a space and the text of the exception, and the exception is given to the logger as an
  error.
\<close>

theorem handler_catches_client_exception:
  "(\<exists>s. fst (call_tool v1 t w) = Inr s) \<and>
   (\<exists>c. api_calls (snd (call_tool v1 t w)) = api_calls w @ [c]) \<and>
   (\<forall>c e. api_calls (snd (call_tool v1 t w)) = api_calls w @ [c] \<longrightarrow> raised_by v1 c = Some e \<longrightarrow>
      fst (call_tool v1 t w) = Inr (documented_error_prefix t @ '' '' @ exc_str e) \<and>
      (\<exists>m. logged (snd (call_tool v1 t w)) = logged w @ [(ERROR, m @ exc_str e)]))"
  using call_tool_returns call_tool_one_call call_tool_raised call_tool_logs by blast

theorem handler_catches_client_exception_witness:
  "api_calls (snd (call_tool cluster_down (Tool_get_pod_logs ''missing-pod'' (Some ''default'') (Some 50)) world0))
     = api_calls world0 @ [ReadNamespacedPodLog ''missing-pod'' ''default'' 50] \<and>
   raised_by cluster_down (ReadNamespacedPodLog ''missing-pod'' ''default'' 50) = Some refused \<and>
   fst (call_tool cluster_down (Tool_get_pod_logs ''missing-pod'' (Some ''default'') (Some 50)) world0)
     = Inr ''Error retrieving pod logs: Connection refused''"
  using handler_catches_client_exception
     [of cluster_down "Tool_get_pod_logs ''missing-pod'' (Some ''default'') (Some 50)" world0]
  by (simp add: get_pod_logs_def try_except_def client_calls Let_def api_calls_logger_error
        api_calls_called raised_def cluster_down_def refused_def world0_def arg_or_def)

text \<open>
  Claim C2. When the list call that \<^verbatim>\<open>get_pods\<close> makes succeeds and returns an empty
  list of pods, \<^verbatim>\<open>get_pods\<close> returns exactly the string \<^verbatim>\<open>No pods found.\<close>
\<close>

theorem get_pods_no_pods:
  "(on_list_pod_for_all_namespaces v1 = Inr [] \<longrightarrow>
      fst (get_pods v1 None w) = Inr ''No pods found.'' \<and>
      fst (get_pods v1 (Some []) w) = Inr ''No pods found.'') \<and>
   (ns \<noteq> [] \<longrightarrow> on_list_namespaced_pod v1 ns = Inr [] \<longrightarrow>
      fst (get_pods v1 (Some ns) w) = Inr ''No pods found.'')"
  by (simp add: get_pods_def try_except_def client_calls)

theorem get_pods_no_pods_witness:
  "on_list_pod_for_all_namespaces cluster_up = Inr [] \<and>
   fst (get_pods cluster_up None world0) = Inr ''No pods found.'' \<and>
   ''kube-system'' \<noteq> [] \<and> on_list_namespaced_pod cluster_up ''kube-system'' = Inr [] \<and>
   fst (get_pods cluster_up (Some ''kube-system'') world0) = Inr ''No pods found.''"
  using get_pods_no_pods [of cluster_up world0 "''kube-system''"]
  by (simp add: cluster_up_def)

text \<open>
  Claim C3. When the list call of \<^verbatim>\<open>get_pod_events\<close> succeeds and no event of the
  list has the given pod name as the name of its involved object,
  \<^verbatim>\<open>get_pod_events\<close> returns exactly \<^verbatim>\<open>No events found for this pod.\<close>
\<close>

theorem get_pod_events_no_events:
  "on_list_namespaced_event v1 (arg_or namespace_arg ''default'') = Inr items \<Longrightarrow>
   filter (\<lambda>event. ref_name (involved_object event) = PyStr pod_name) items = [] \<Longrightarrow>
   fst (get_pod_events v1 pod_name namespace_arg w) = Inr ''No events found for this pod.''"
  by (simp add: get_pod_events_def try_except_def client_calls Let_def)

theorem get_pod_events_no_events_witness:
  "on_list_namespaced_event cluster_up (arg_or None ''default'')
     = Inr [event_about ''demo'' ''a'', event_about ''other'' ''b'', event_about ''demo'' ''c''] \<and>
   filter (\<lambda>event. ref_name (involved_object event) = PyStr ''idle'')
     [event_about ''demo'' ''a'', event_about ''other'' ''b'', event_about ''demo'' ''c''] = [] \<and>
   fst (get_pod_events cluster_up ''idle'' None world0) = Inr ''No events found for this pod.''"
  using get_pod_events_no_events [of cluster_up None
     "[event_about ''demo'' ''a'', event_about ''other'' ''b'', event_about ''demo'' ''c'']" "''idle''" world0]
  by (simp add: cluster_up_def event_about_def)

text \<open>
  Claim C4. \<^verbatim>\<open>get_pod_events\<close> lists the events of the given namespace, and when
  some event of the list is about the pod it returns the blocks of exactly the events
  whose involved object's name equals the pod name, in the order of the list, joined by
  the separator line.
\<close>

theorem get_pod_events_blocks:
  "on_list_namespaced_event v1 (arg_or namespace_arg ''default'') = Inr items \<Longrightarrow>
   \<exists>event \<in> set items. ref_name (involved_object event) = PyStr pod_name \<Longrightarrow>
   fst (get_pod_events v1 pod_name namespace_arg w) =
     Inr (str_join ''\<newline>---\<newline>''
            (map event_details
               (filter (\<lambda>event. ref_name (involved_object event) = PyStr pod_name) items))) \<and>
   api_calls (snd (get_pod_events v1 pod_name namespace_arg w)) =
     api_calls w @ [ListNamespacedEvent (arg_or namespace_arg ''default'')]"
  by (auto simp: get_pod_events_def try_except_def client_calls Let_def event_info_loop_append
        filter_empty_conv api_calls_called)

theorem get_pod_events_blocks_witness:
  "on_list_namespaced_event cluster_up (arg_or None ''default'')
     = Inr [event_about ''demo'' ''a'', event_about ''other'' ''b'', event_about ''demo'' ''c''] \<and>
   (\<exists>event \<in> set [event_about ''demo'' ''a'', event_about ''other'' ''b'', event_about ''demo'' ''c''].
      ref_name (involved_object event) = PyStr ''demo'') \<and>
   fst (get_pod_events cluster_up ''demo'' None world0) =
     Inr (event_details (event_about ''demo'' ''a'') @ ''\<newline>---\<newline>'' @
          event_details (event_about ''demo'' ''c''))"
  using get_pod_events_blocks [of cluster_up None
     "[event_about ''demo'' ''a'', event_about ''other'' ''b'', event_about ''demo'' ''c'']" "''demo''" world0]
  by (simp add: cluster_up_def event_about_def)

text \<open>
  Claim C5. When the create call succeeds, \<^verbatim>\<open>create_pod("demo", "default", "nginx")\<close>
  returns \<^verbatim>\<open>Pod demo created in namespace default.\<close>, and when the delete call
  succeeds, \<^verbatim>\<open>delete_pod("demo", "default")\<close> returns
  \<^verbatim>\<open>Pod demo deleted from namespace default.\<close>; in general the two confirmations
  insert the pod name and the namespace into these formats.
\<close>

theorem create_delete_pod_confirmation:
  "(on_create_namespaced_pod v1 ''default'' (pod_manifest ''demo'' ''default'' ''nginx'') = Inr () \<longrightarrow>
      fst (create_pod v1 ''demo'' (Some ''default'') (Some ''nginx'') w)
        = Inr ''Pod demo created in namespace default.'') \<and>
   (on_delete_namespaced_pod v1 ''demo'' ''default'' = Inr () \<longrightarrow>
      fst (delete_pod v1 ''demo'' (Some ''default'') w')
        = Inr ''Pod demo deleted from namespace default.'') \<and>
   (on_create_namespaced_pod v1 (arg_or namespace_arg ''default'')
        (pod_manifest pod_name (arg_or namespace_arg ''default'') (arg_or image_arg ''nginx'')) = Inr () \<longrightarrow>
      fst (create_pod v1 pod_name namespace_arg image_arg w)
        = Inr (''Pod '' @ pod_name @ '' created in namespace '' @ arg_or namespace_arg ''default'' @ ''.'')) \<and>
   (on_delete_namespaced_pod v1 pod_name (arg_or namespace_arg ''default'') = Inr () \<longrightarrow>
      fst (delete_pod v1 pod_name namespace_arg w')
        = Inr (''Pod '' @ pod_name @ '' deleted from namespace '' @ arg_or namespace_arg ''default'' @ ''.''))"
  by (simp add: create_pod_def delete_pod_def try_except_def client_calls Let_def arg_or_def)

theorem create_delete_pod_confirmation_witness:
  "on_create_namespaced_pod cluster_up ''default'' (pod_manifest ''demo'' ''default'' ''nginx'') = Inr () \<and>
   fst (create_pod cluster_up ''demo'' (Some ''default'') (Some ''nginx'') world0)
     = Inr ''Pod demo created in namespace default.'' \<and>
   on_delete_namespaced_pod cluster_up ''demo'' ''default'' = Inr () \<and>
   fst (delete_pod cluster_up ''demo'' (Some ''default'')
          (snd (create_pod cluster_up ''demo'' (Some ''default'') (Some ''nginx'') world0)))
     = Inr ''Pod demo deleted from namespace default.''"
  using create_delete_pod_confirmation [of cluster_up world0
     "snd (create_pod cluster_up ''demo'' (Some ''default'') (Some ''nginx'') world0)"
     "Some ''default''" "''demo''" "Some ''nginx''"]
  by (simp add: cluster_up_def)

text \<open>
  Claim C6. \<^verbatim>\<open>create_pod\<close> submits, to the namespace of its argument
  (\<^verbatim>\<open>default\<close> when omitted), a manifest whose metadata hold the pod name and that
  namespace and whose spec holds exactly one container, with the image of the argument,
  \<^verbatim>\<open>nginx\<close> when the argument is omitted.
\<close>

theorem create_pod_manifest_submitted:
  "\<exists>m md sp c.
     api_calls (snd (create_pod v1 pod_name namespace_arg image_arg w))
       = api_calls w @
         [CreateNamespacedPod (case namespace_arg of None \<Rightarrow> ''default'' | Some ns \<Rightarrow> ns) m] \<and>
     jget m ''metadata'' = Some md \<and>
     jget md ''name'' = Some (JStr pod_name) \<and>
     jget md ''namespace''
       = Some (JStr (case namespace_arg of None \<Rightarrow> ''default'' | Some ns \<Rightarrow> ns)) \<and>
     jget m ''spec'' = Some sp \<and>
     jget sp ''containers'' = Some (JList [c]) \<and>
     jget c ''image'' = Some (JStr (case image_arg of None \<Rightarrow> ''nginx'' | Some i \<Rightarrow> i))"
  by (cases namespace_arg; cases image_arg;
      cases "on_create_namespaced_pod v1 (arg_or namespace_arg ''default'')
               (pod_manifest pod_name (arg_or namespace_arg ''default'') (arg_or image_arg ''nginx''))")
     (simp_all add: create_pod_def try_except_def client_calls Let_def pod_manifest_def jget_def
        api_calls_called api_calls_logger_error arg_or_def)

theorem create_pod_manifest_submitted_witness:
  "api_calls (snd (create_pod cluster_up ''demo'' None None world0))
     = [CreateNamespacedPod ''default'' (pod_manifest ''demo'' ''default'' ''nginx'')] \<and>
   jget (pod_manifest ''demo'' ''default'' ''nginx'') ''spec''
     = Some (JDict [(''containers'', JList [JDict [(''name'', JStr ''demo''), (''image'', JStr ''nginx'')]])])"
  using create_pod_manifest_submitted [of cluster_up "''demo''" None None world0]
  by (simp add: create_pod_def try_except_def client_calls Let_def pod_manifest_def jget_def
        api_calls_called arg_or_def cluster_up_def world0_def)

text \<open>
  Claim C7. \<^verbatim>\<open>get_pod_logs\<close> makes a single log call with the pod name, the
  namespace and the tail line count, where an omitted namespace is \<^verbatim>\<open>default\<close> and
  an omitted tail line count is 50, and on success returns the text of the log unchanged.
\<close>

theorem get_pod_logs_passes_arguments:
  "api_calls (snd (get_pod_logs v1 pod_name namespace_arg tail_lines_arg w))
     = api_calls w @
       [ReadNamespacedPodLog pod_name
          (case namespace_arg of None \<Rightarrow> ''default'' | Some ns \<Rightarrow> ns)
          (case tail_lines_arg of None \<Rightarrow> 50 | Some n \<Rightarrow> n)] \<and>
   (on_read_namespaced_pod_log v1 pod_name
        (case namespace_arg of None \<Rightarrow> ''default'' | Some ns \<Rightarrow> ns)
        (case tail_lines_arg of None \<Rightarrow> 50 | Some n \<Rightarrow> n) = Inr logs \<longrightarrow>
      get_pod_logs v1 pod_name namespace_arg tail_lines_arg w
        = (Inr logs,
           called (ReadNamespacedPodLog pod_name
                     (case namespace_arg of None \<Rightarrow> ''default'' | Some ns \<Rightarrow> ns)
                     (case tail_lines_arg of None \<Rightarrow> 50 | Some n \<Rightarrow> n)) w))"
  by (cases namespace_arg; cases tail_lines_arg;
      cases "on_read_namespaced_pod_log v1 pod_name (arg_or namespace_arg ''default'')
               (arg_or tail_lines_arg 50)")
     (simp_all add: get_pod_logs_def try_except_def client_calls Let_def arg_or_def
        api_calls_called api_calls_logger_error)

theorem get_pod_logs_passes_arguments_witness:
  "on_read_namespaced_pod_log cluster_up ''demo'' ''default'' 50 = Inr ''ready\<newline>'' \<and>
   get_pod_logs cluster_up ''demo'' None None world0
     = (Inr ''ready\<newline>'', world0\<lparr>api_calls := [ReadNamespacedPodLog ''demo'' ''default'' 50]\<rparr>) \<and>
   on_read_namespaced_pod_log cluster_up ''demo'' ''prod'' 50 = Inr ''ready\<newline>'' \<and>
   get_pod_logs cluster_up ''demo'' (Some ''prod'') None world0
     = (Inr ''ready\<newline>'', world0\<lparr>api_calls := [ReadNamespacedPodLog ''demo'' ''prod'' 50]\<rparr>) \<and>
   get_pod_logs cluster_up ''demo'' None (Some 10) world0
     = (Inr ''ready\<newline>'', world0\<lparr>api_calls := [ReadNamespacedPodLog ''demo'' ''default'' 10]\<rparr>)"
  using get_pod_logs_passes_arguments [of cluster_up "''demo''" None None world0 "''ready\<newline>''"]
        get_pod_logs_passes_arguments [of cluster_up "''demo''" "Some ''prod''" None world0 "''ready\<newline>''"]
        get_pod_logs_passes_arguments [of cluster_up "''demo''" None "Some 10" world0 "''ready\<newline>''"]
  by (simp add: cluster_up_def called_def world0_def)

section \<open>Properties of the configuration loading and of the command line\<close>

lemma config_calls_logger:
  "config_calls (logger_info m w) = config_calls w"
  "config_calls (logger_warning m w) = config_calls w"
  "config_calls (logger_error m w) = config_calls w"
  by (simp_all add: logger_info_def logger_warning_def logger_error_def)

lemma logged_logger:
  "logged (logger_info m w) = logged w @ [(INFO, m)]"
  "logged (logger_warning m w) = logged w @ [(WARNING, m)]"
  by (simp_all add: logger_info_def logger_warning_def)

lemma module_init_returns: "fst (module_init env w) = Inr (client_CoreV1Api env)"
  by (simp add: module_init_def Let_def)

lemma module_init_kube_ok:
  "on_load_kube_config env ''kind-mcp-server'' = Inr u \<Longrightarrow>
   config_calls (snd (module_init env w)) = config_calls w @ [LoadKubeConfig ''kind-mcp-server'']"
  by (simp add: module_init_def Let_def load_kube_config_def config_calls_logger)

lemma module_init_kube_fails:
  "on_load_kube_config env ''kind-mcp-server'' = Inl e \<Longrightarrow>
   config_calls (snd (module_init env w)) =
     config_calls w @ [LoadKubeConfig ''kind-mcp-server'', LoadInclusterConfig]"
  by (cases "on_load_incluster_config env")
     (simp_all add: module_init_def Let_def load_kube_config_def load_incluster_config_def
        config_calls_logger)

lemma module_init_both_fail:
  "on_load_kube_config env ''kind-mcp-server'' = Inl e \<Longrightarrow>
   on_load_incluster_config env = Inl e2 \<Longrightarrow>
   logged (snd (module_init env w)) =
     logged w @ [(WARNING, msg_kube_config_failed @ exc_str e), (ERROR, msg_config_failed @ exc_str e2)]"
  by (simp add: module_init_def Let_def load_kube_config_def load_incluster_config_def
        logged_logger logged_logger_error logger_warning_def)

text \<open>
  Claim C8. Loading the module tries the local kube-config with the context
  \<^verbatim>\<open>kind-mcp-server\<close> first; it tries the in-cluster configuration if and only if
  that raised; when both raise it logs an error; and in every case it goes on to
  construct the client and does not raise.
\<close>

theorem module_init_fallback:
  "fst (module_init env w) = Inr (client_CoreV1Api env) \<and>
   (on_load_kube_config env ''kind-mcp-server'' = Inr u \<longrightarrow>
      config_calls (snd (module_init env w)) = config_calls w @ [LoadKubeConfig ''kind-mcp-server'']) \<and>
   (on_load_kube_config env ''kind-mcp-server'' = Inl e \<longrightarrow>
      config_calls (snd (module_init env w)) =
        config_calls w @ [LoadKubeConfig ''kind-mcp-server'', LoadInclusterConfig]) \<and>
   (LoadInclusterConfig \<notin> set (config_calls w) \<longrightarrow>
      (LoadInclusterConfig \<in> set (config_calls (snd (module_init env w))) \<longleftrightarrow>
       (\<exists>e'. on_load_kube_config env ''kind-mcp-server'' = Inl e'))) \<and>
   (on_load_kube_config env ''kind-mcp-server'' = Inl e \<longrightarrow>
    on_load_incluster_config env = Inl e2 \<longrightarrow>
      logged (snd (module_init env w)) =
        logged w @ [(WARNING, msg_kube_config_failed @ exc_str e),
                    (ERROR, msg_config_failed @ exc_str e2)])"
proof -
  have iff: "LoadInclusterConfig \<notin> set (config_calls w) \<longrightarrow>
      (LoadInclusterConfig \<in> set (config_calls (snd (module_init env w))) \<longleftrightarrow>
       (\<exists>e'. on_load_kube_config env ''kind-mcp-server'' = Inl e'))"
  proof (cases "on_load_kube_config env ''kind-mcp-server''")
    case (Inl a)
    then show ?thesis using module_init_kube_fails [of env a w] by simp
  next
    case (Inr b)
    then show ?thesis using module_init_kube_ok [of env b w] by simp
  qed
  show ?thesis
    using iff module_init_returns module_init_kube_ok module_init_kube_fails module_init_both_fail
    by blast
qed

theorem module_init_fallback_witness:
  "on_load_kube_config env_bare ''kind-mcp-server''
     = Inl (PyException ''ConfigException'' ''Invalid kube-config file.'') \<and>
   on_load_incluster_config env_bare
     = Inl (PyException ''ConfigException'' ''Service host/port is not set.'') \<and>
   LoadInclusterConfig \<notin> set (config_calls world0) \<and>
   fst (module_init env_bare world0) = Inr cluster_down \<and>
   config_calls (snd (module_init env_bare world0))
     = [LoadKubeConfig ''kind-mcp-server'', LoadInclusterConfig] \<and>
   logged (snd (module_init env_bare world0))
     = [(WARNING, msg_kube_config_failed @ ''Invalid kube-config file.''),
        (ERROR, msg_config_failed @ ''Service host/port is not set.'')] \<and>
   on_load_kube_config env_kind ''kind-mcp-server'' = Inr () \<and>
   config_calls (snd (module_init env_kind world0)) = [LoadKubeConfig ''kind-mcp-server'']"
  using module_init_fallback [of env_bare world0 "()" "PyException ''ConfigException'' ''Invalid kube-config file.''"
          "PyException ''ConfigException'' ''Service host/port is not set.''"]
        module_init_fallback [of env_kind world0 "()" "PyException ''ConfigException'' ''Invalid kube-config file.''"
          "PyException ''ConfigException'' ''Service host/port is not set.''"]
  by (simp add: env_bare_def env_kind_def world0_def)












text \<open>
  Claim C10. \<^verbatim>\<open>get_pods\<close> chooses its call by the truth value of the namespace:
  for \<^verbatim>\<open>None\<close> and for the empty string it lists the pods of all namespaces, and
  only for a non-empty string it lists the pods of that namespace.
\<close>

theorem get_pods_namespace_truthiness:
  "api_calls (snd (get_pods v1 None w)) = api_calls w @ [ListPodForAllNamespaces] \<and>
   api_calls (snd (get_pods v1 (Some []) w)) = api_calls w @ [ListPodForAllNamespaces] \<and>
   (ns \<noteq> [] \<longrightarrow> api_calls (snd (get_pods v1 (Some ns) w)) = api_calls w @ [ListNamespacedPod ns])"
  by (auto simp: get_pods_def try_except_def client_calls api_calls_called api_calls_logger_error
        split: sum.splits prod.splits)

theorem get_pods_namespace_truthiness_witness:
  "api_calls (snd (get_pods cluster_up None world0)) = [ListPodForAllNamespaces] \<and>
   api_calls (snd (get_pods cluster_up (Some '''') world0)) = [ListPodForAllNamespaces] \<and>
   ''kube-system'' \<noteq> [] \<and>
   api_calls (snd (get_pods cluster_up (Some ''kube-system'') world0))
     = [ListNamespacedPod ''kube-system'']"
  using get_pods_namespace_truthiness [of cluster_up world0 "''kube-system''"]
  by (simp add: world0_def)

end
